theory Spec2Isabelle
  imports Complex_Main "HOL-Library.Multiset"
begin

section \<open>Python values used by the resume analyser\<close>

text \<open>
  A Python float is modelled by the number it denotes, or one of the three special
  values. Rounding is not modelled; comparisons, \<open>min\<close> and \<open>max\<close> are the
  ones of CPython: every comparison with NaN is false, \<open>min(a, b)\<close> keeps \<open>a\<close>
  unless \<open>b < a\<close>, and \<open>max(a, b)\<close> keeps \<open>a\<close> unless \<open>b > a\<close>.
\<close>

datatype pyfloat = Finite real | PosInf | NegInf | NaN

fun py_lt :: "pyfloat \<Rightarrow> pyfloat \<Rightarrow> bool" where
  "py_lt NaN b = False"
| "py_lt a NaN = False"
| "py_lt (Finite a) (Finite b) = (a < b)"
| "py_lt (Finite a) PosInf = True"
| "py_lt (Finite a) NegInf = False"
| "py_lt PosInf b = False"
| "py_lt NegInf (Finite b) = True"
| "py_lt NegInf PosInf = True"
| "py_lt NegInf NegInf = False"

definition py_min :: "pyfloat \<Rightarrow> pyfloat \<Rightarrow> pyfloat" where
  "py_min a b = (if py_lt b a then b else a)"

definition py_max :: "pyfloat \<Rightarrow> pyfloat \<Rightarrow> pyfloat" where
  "py_max a b = (if py_lt a b then b else a)"

definition in_unit_interval :: "pyfloat \<Rightarrow> bool" where
  "in_unit_interval s = (case s of Finite r \<Rightarrow> 0 \<le> r \<and> r \<le> 1 | _ \<Rightarrow> False)"

text \<open>
  What \<open>json.loads\<close> produces. \<open>JNull\<close> is Python's \<open>None\<close>. \<open>JObj\<close>
  lists the entries of the resulting dict and is read with \<open>map_of\<close>.
\<close>

datatype json =
    JNull
  | JBool bool
  | JInt int
  | JFloat pyfloat
  | JStr string
  | JArr "json list"
  | JObj "(string \<times> json) list"

datatype py_exn = TypeError | ValueError | AttributeError | OverflowError | ValidationError

fun truthy :: "json \<Rightarrow> bool" where
  "truthy JNull = False"
| "truthy (JBool b) = b"
| "truthy (JInt i) = (i \<noteq> 0)"
| "truthy (JFloat f) = (f \<noteq> Finite 0)"
| "truthy (JStr s) = (s \<noteq> [])"
| "truthy (JArr xs) = (xs \<noteq> [])"
| "truthy (JObj kvs) = (kvs \<noteq> [])"

definition str_truthy :: "string option \<Rightarrow> bool" where
  "str_truthy s = (case s of None \<Rightarrow> False | Some t \<Rightarrow> t \<noteq> [])"

fun startswith :: "string \<Rightarrow> string \<Rightarrow> bool" where
  "startswith s [] = True"
| "startswith [] (p # ps) = False"
| "startswith (c # s) (p # ps) = (c = p \<and> startswith s ps)"

fun contains :: "string \<Rightarrow> string \<Rightarrow> bool" where
  "contains [] n = (n = [])"
| "contains (c # s) n = (startswith (c # s) n \<or> contains s n)"

fun join :: "string \<Rightarrow> string list \<Rightarrow> string" where
  "join sep [] = []"
| "join sep [x] = x"
| "join sep (x # y # ys) = x @ sep @ join sep (y # ys)"

text \<open>\<open>k in result\<close>: a key of a dict, an element of a list, a substring of a string;
  a number or a bool is not iterable.\<close>

fun py_in :: "string \<Rightarrow> json \<Rightarrow> py_exn + bool" where
  "py_in k (JObj kvs) = Inr (k \<in> set (map fst kvs))"
| "py_in k (JArr xs) = Inr (JStr k \<in> set xs)"
| "py_in k (JStr s) = Inr (contains s k)"
| "py_in k JNull = Inl TypeError"
| "py_in k (JBool b) = Inl TypeError"
| "py_in k (JInt i) = Inl TypeError"
| "py_in k (JFloat f) = Inl TypeError"

text \<open>\<open>all(k in result for k in ks)\<close>, left to right, stopping at the first false.\<close>

fun all_in :: "string list \<Rightarrow> json \<Rightarrow> py_exn + bool" where
  "all_in [] result = Inr True"
| "all_in (k # ks) result =
     (case py_in k result of
        Inl e \<Rightarrow> Inl e
      | Inr present \<Rightarrow> if present then all_in ks result else Inr False)"

text \<open>\<open>result.get(key, default)\<close>: only a dict has \<open>get\<close>.\<close>

fun py_get :: "json \<Rightarrow> string \<Rightarrow> json \<Rightarrow> py_exn + json" where
  "py_get (JObj kvs) k d = Inr (case map_of kvs k of None \<Rightarrow> d | Some v \<Rightarrow> v)"
| "py_get JNull k d = Inl AttributeError"
| "py_get (JBool b) k d = Inl AttributeError"
| "py_get (JInt i) k d = Inl AttributeError"
| "py_get (JFloat f) k d = Inl AttributeError"
| "py_get (JStr s) k d = Inl AttributeError"
| "py_get (JArr xs) k d = Inl AttributeError"

text \<open>
  The parts of the Python runtime and of pydantic that the code calls and that are not
  part of the repository are parameters: \<open>float\<close> on an int and on a string
  (\<open>None\<close> when it raises), the text of an exception, and the validation of a value
  for a field declared \<open>str\<close> and \<open>List[str]\<close> (\<open>None\<close> when it is rejected).
\<close>

record runtime =
  float_of_int :: "int \<Rightarrow> pyfloat option"
  float_of_str :: "string \<Rightarrow> pyfloat option"
  str_of_exn :: "py_exn \<Rightarrow> string"
  validate_str :: "json \<Rightarrow> string option"
  validate_str_list :: "json \<Rightarrow> string list option"

fun py_float :: "runtime \<Rightarrow> json \<Rightarrow> py_exn + pyfloat" where
  "py_float rt (JFloat f) = Inr f"
| "py_float rt (JBool b) = Inr (Finite (if b then 1 else 0))"
| "py_float rt (JInt i) = (case float_of_int rt i of None \<Rightarrow> Inl OverflowError | Some f \<Rightarrow> Inr f)"
| "py_float rt (JStr s) = (case float_of_str rt s of None \<Rightarrow> Inl ValueError | Some f \<Rightarrow> Inr f)"
| "py_float rt JNull = Inl TypeError"
| "py_float rt (JArr xs) = Inl TypeError"
| "py_float rt (JObj kvs) = Inl TypeError"

section \<open>models.py\<close>

record ResumeFile =
  rf_filename :: string
  rf_content_type :: string
  rf_text :: "string option"

record ResumeSummary =
  rs_file_name :: string
  rs_summary :: string
  rs_name :: "string option"
  rs_title :: "string option"
  rs_technologies :: "string list option"
  rs_experiences :: "string list option"
  rs_education :: "string list option"

record QueryMatch =
  qm_file_name :: string
  qm_score :: pyfloat
  qm_justification :: string
  qm_name :: "string option"
  qm_title :: "string option"

record SummariesResponse =
  sr_request_id :: string
  sr_user_id :: string
  sr_summaries :: "ResumeSummary list"

record RankingResponse =
  rr_request_id :: string
  rr_user_id :: string
  rr_query :: string
  rr_ranking :: "QueryMatch list"

datatype analysis_result = RankingResult "QueryMatch list" | SummariesResult "ResumeSummary list"

record LogEntry =
  le_request_id :: string
  le_user_id :: string
  le_timestamp :: nat
  le_query :: "string option"
  le_files_processed :: "string list"
  le_result :: analysis_result
  le_error_message :: "string option"

section \<open>Message texts\<close>

text \<open>Characters outside ASCII are written as their UTF-8 bytes.\<close>

definition detail_no_files :: string where
  "detail_no_files =
     ''Nenhum arquivo foi enviado. Por favor, fa'' @ [CHR 0xC3, CHR 0xA7] @ ''a upload de pelo menos um curr'' @ [CHR 0xC3, CHR 0xAD] @ ''culo.''"

definition detail_no_text :: string where
  "detail_no_text =
     ''N'' @ [CHR 0xC3, CHR 0xA3] @ ''o foi poss'' @ [CHR 0xC3, CHR 0xAD] @ ''vel extrair texto de nenhum dos arquivos enviados. Verifique se os formatos s'' @ [CHR 0xC3, CHR 0xA3] @ ''o suportados e se os arquivos cont'' @ [CHR 0xC3, CHR 0xAA] @ ''m texto leg'' @ [CHR 0xC3, CHR 0xAD] @ ''vel.''"

definition ranking_timeout_text :: string where
  "ranking_timeout_text =
     ''Timeout durante o processamento LLM. O arquivo pode ser muito grande ou complexo.''"

definition ignored_text :: string where
  "ignored_text =
     ''Ignorado devido '' @ [CHR 0xC3, CHR 0xA0] @ '' falha na extra'' @ [CHR 0xC3, CHR 0xA7] @ [CHR 0xC3, CHR 0xA3] @ ''o de texto via OCR.''"

definition summary_failed_text :: string where
  "summary_failed_text =
     ''Falha ao gerar resumo. O modelo LLM n'' @ [CHR 0xC3, CHR 0xA3] @ ''o retornou resultados.''"

definition summary_timeout_text :: string where
  "summary_timeout_text =
     ''Timeout durante a gera'' @ [CHR 0xC3, CHR 0xA7] @ [CHR 0xC3, CHR 0xA3] @ ''o do resumo. O arquivo pode ser muito grande ou complexo.''"

definition eval_invalid_text :: string where
  "eval_invalid_text =
     ''Erro ao analisar resposta da IA: formato inv'' @ [CHR 0xC3, CHR 0xA1] @ ''lido ou chaves ausentes.''"

definition summ_invalid_text :: string where
  "summ_invalid_text =
     ''Erro ao analisar resposta da IA: formato inv'' @ [CHR 0xC3, CHR 0xA1] @ ''lido.''"

section \<open>llm.py\<close>

text \<open>
  \<open>_call_gemini_api\<close> returns \<open>None\<close> without calling the service when no key is
  configured. Otherwise it returns the parsed JSON text of the reply, or \<open>None\<close> on every
  failure it catches; that value is the argument \<open>reply\<close>.
\<close>

definition call_gemini_api :: "string option \<Rightarrow> json \<Rightarrow> json" where
  "call_gemini_api api_key reply = (if \<not> str_truthy api_key then JNull else reply)"

definition opt_field :: "(json \<Rightarrow> 'a option) \<Rightarrow> json \<Rightarrow> 'a option option" where
  "opt_field v j = (if j = JNull then Some None else map_option Some (v j))"

text \<open>The \<open>ResumeSummary(...)\<close> call of \<open>summarize_resume\<close> on a dict: every field is
  validated, and one rejected field raises.\<close>

definition build_summary :: "runtime \<Rightarrow> string \<Rightarrow> (string \<times> json) list \<Rightarrow> ResumeSummary option" where
  "build_summary rt file_name kvs =
     (let get = (\<lambda>k d. case map_of kvs k of None \<Rightarrow> d | Some v \<Rightarrow> v) in
      case (opt_field (validate_str rt) (get ''name'' JNull),
            opt_field (validate_str rt) (get ''title'' JNull),
            opt_field (validate_str_list rt) (get ''technologies'' (JArr [])),
            opt_field (validate_str_list rt) (get ''experiences'' (JArr [])),
            opt_field (validate_str_list rt) (get ''education'' (JArr [])),
            validate_str rt (get ''summary'' (JStr []))) of
        (Some n, Some t, Some te, Some ex, Some ed, Some s) \<Rightarrow>
          Some \<lparr>rs_file_name = file_name, rs_summary = s, rs_name = n, rs_title = t,
                rs_technologies = te, rs_experiences = ex, rs_education = ed\<rparr>
      | _ \<Rightarrow> None)"

definition placeholder_summary :: "string \<Rightarrow> string \<Rightarrow> ResumeSummary" where
  "placeholder_summary file_name s =
     \<lparr>rs_file_name = file_name, rs_summary = s, rs_name = None, rs_title = None,
      rs_technologies = None, rs_experiences = None, rs_education = None\<rparr>"

definition summarize_resume :: "runtime \<Rightarrow> string option \<Rightarrow> json \<Rightarrow> string \<Rightarrow> ResumeSummary option" where
  "summarize_resume rt api_key reply file_name =
     (let result = call_gemini_api api_key reply in
      if \<not> truthy result then Some (placeholder_summary file_name summ_invalid_text)
      else (case result of
              JObj kvs \<Rightarrow> build_summary rt file_name kvs
            | _ \<Rightarrow> None))"

definition clamp_score :: "pyfloat \<Rightarrow> pyfloat" where
  "clamp_score score = py_max (Finite 0) (py_min (Finite 1) score)"

definition evaluate_failed :: "runtime \<Rightarrow> py_exn \<Rightarrow> json \<times> json \<times> pyfloat option" where
  "evaluate_failed rt e = (JNull, JStr (''Erro no processamento: '' @ str_of_exn rt e), Some (Finite 0))"

text \<open>The result is (title, justification, score); \<open>JNull\<close> is \<open>None\<close> in the first two
  components, and the score is optional as the annotation of the source has it.\<close>

definition evaluate_resume :: "runtime \<Rightarrow> string option \<Rightarrow> json \<Rightarrow> json \<times> json \<times> pyfloat option" where
  "evaluate_resume rt api_key reply =
     (let result = call_gemini_api api_key reply in
      case (if \<not> truthy result then Inr False else all_in [''justification'', ''score''] result) of
        Inl e \<Rightarrow> evaluate_failed rt e
      | Inr has_keys \<Rightarrow>
          if \<not> has_keys then (JNull, JStr eval_invalid_text, Some (Finite 0))
          else (case py_get result ''score'' (JFloat (Finite 0)) of
                  Inl e \<Rightarrow> evaluate_failed rt e
                | Inr v \<Rightarrow>
                    (case py_float rt v of
                       Inl e \<Rightarrow> evaluate_failed rt e
                     | Inr f \<Rightarrow>
                         (let score = clamp_score f in
                          case py_get result ''title'' JNull of
                            Inl e \<Rightarrow> evaluate_failed rt e
                          | Inr title \<Rightarrow>
                              (case py_get result ''justification'' JNull of
                                 Inl e \<Rightarrow> evaluate_failed rt e
                               | Inr justification \<Rightarrow> (title, justification, Some score))))))"

section \<open>storage.py\<close>

text \<open>
  What the database does when \<open>save_log\<close> runs: \<open>get_db\<close> cannot connect and raises a
  RuntimeError (outside the \<open>try\<close> of \<open>save_log\<close>), the insertion raises (caught,
  \<open>False\<close> is returned), or the record is inserted. The collection is the list of records.
\<close>

datatype db_behaviour = DbUnavailable string | InsertFails string | InsertOk

definition save_log :: "db_behaviour \<Rightarrow> LogEntry list \<Rightarrow> LogEntry \<Rightarrow> (string + bool) \<times> LogEntry list" where
  "save_log b logs log_entry =
     (case b of
        DbUnavailable m \<Rightarrow> (Inl m, logs)
      | InsertFails m \<Rightarrow> (Inr False, logs)
      | InsertOk \<Rightarrow> (Inr True, logs @ [log_entry]))"

section \<open>Sorting\<close>

text \<open>
  \<open>list.sort(key=..., reverse=True)\<close> is stable and compares keys with \<open><\<close> only;
  with \<open>reverse=True\<close> CPython reverses the list, sorts it and reverses it again.
  The stable sort is written as insertion from the right.
\<close>

fun insort_lt :: "('a \<Rightarrow> pyfloat) \<Rightarrow> 'a \<Rightarrow> 'a list \<Rightarrow> 'a list" where
  "insort_lt k x [] = [x]"
| "insort_lt k x (y # ys) = (if py_lt (k y) (k x) then y # insort_lt k x ys else x # y # ys)"

definition py_sort :: "('a \<Rightarrow> pyfloat) \<Rightarrow> 'a list \<Rightarrow> 'a list" where
  "py_sort k xs = foldr (insort_lt k) xs []"

definition py_sort_reverse :: "('a \<Rightarrow> pyfloat) \<Rightarrow> 'a list \<Rightarrow> 'a list" where
  "py_sort_reverse k xs = rev (py_sort k (rev xs))"

section \<open>main.py\<close>

text \<open>
  The collaborators are outside the program, so each uploaded file carries what they will
  do for it: whether reading it raises, what \<open>ocr.process_file\<close> returns (text, error)
  or raises, and for each of the two completion calls whether \<open>asyncio.wait_for\<close>
  times out or what \<open>_call_gemini_api\<close> gives back once a key is configured.
  A part of a multipart body always has a file name, but its \<open>Content-Type\<close> header may
  be missing, so \<open>content_type\<close> is optional.
\<close>

datatype 'a timed = TimedOut | Completed 'a

datatype read_result = ReadOk | ReadRaised string

datatype ocr_result = OcrReturned "string option" "string option" | OcrRaised string

record completions =
  c_evaluate :: "json timed"
  c_summarize :: "json timed"

record UploadFile =
  up_filename :: string
  up_content_type :: "string option"
  up_read :: read_result
  up_ocr :: ocr_result
  up_completions :: completions

datatype HTTPException = HTTPException nat string

datatype analysis_response = Summaries SummariesResponse | Ranking RankingResponse

datatype llm_call = EvaluateCall string | SummarizeCall string

record world =
  w_runtime :: runtime
  GEMINI_API_KEY :: "string option"
  DEFAULT_USER_ID :: string
  uuid4 :: string
  utcnow :: "nat \<Rightarrow> nat"
  w_db :: db_behaviour

text \<open>
  The clock: \<open>utcnow w n\<close> is what \<open>datetime.utcnow()\<close> returns once \<open>n\<close> calls of
  this request to its collaborators (file reads, extractions, completion calls, the audit
  write) have finished. The handler reads it at line 171, before any of them, and at line 359,
  after all of them, for the duration it logs.
\<close>

text \<open>What a request leaves behind: the response or the HTTP error, the completion calls
  made, the records handed to \<open>storage.save_log\<close>, the collection afterwards, and the
  duration logged at line 359 when that line is reached.\<close>

record outcome =
  response :: "HTTPException + analysis_response"
  llm_calls :: "llm_call list"
  submitted :: "LogEntry list"
  logs :: "LogEntry list"
  logged_duration :: "int option"

definition or_default :: "string option \<Rightarrow> string \<Rightarrow> string" where
  "or_default s d = (case s of None \<Rightarrow> d | Some t \<Rightarrow> if t = [] then d else t)"

definition rejected :: "HTTPException \<Rightarrow> llm_call list \<Rightarrow> LogEntry list \<Rightarrow> outcome" where
  "rejected e calls db =
     \<lparr>response = Inl e, llm_calls = calls, submitted = [], logs = db, logged_duration = None\<rparr>"

text \<open>Lines 182-195: reading the files; a read that raises ends the request with 400.\<close>

fun read_files :: "UploadFile list \<Rightarrow> UploadFile list \<Rightarrow> string list \<Rightarrow> HTTPException + (UploadFile list \<times> string list)" where
  "read_files [] file_contents log_file_names = Inr (file_contents, log_file_names)"
| "read_files (file # files) file_contents log_file_names =
     (case up_read file of
        ReadRaised e \<Rightarrow>
          Inl (HTTPException 400 (''Erro ao ler arquivo '' @ up_filename file @ '': '' @ e))
      | ReadOk \<Rightarrow>
          read_files files (file_contents @ [file]) (log_file_names @ [up_filename file]))"

text \<open>\<open>ResumeFile(filename=..., content_type=..., text=...)\<close>: \<open>content_type\<close> is a
  required \<open>str\<close> field of models.py, so \<open>None\<close> is rejected.\<close>

definition make_resume_file :: "string \<Rightarrow> string option \<Rightarrow> string \<Rightarrow> py_exn + ResumeFile" where
  "make_resume_file filename content_type t =
     (case content_type of
        None \<Rightarrow> Inl ValidationError
      | Some c \<Rightarrow> Inr \<lparr>rf_filename = filename, rf_content_type = c, rf_text = Some t\<rparr>)"

text \<open>Lines 206-223: the body of the \<open>try\<close> for one file. The result is the entry
  appended to \<open>processed_files_info\<close> with the message appended to
  \<open>error_messages_for_log\<close>, if any; \<open>Inl\<close> is the text of an exception raised by the
  extractor or by \<open>ResumeFile(...)\<close>.\<close>

definition extract_try :: "runtime \<Rightarrow> UploadFile
    \<Rightarrow> string + ((ResumeFile \<times> completions) \<times> string option)" where
  "extract_try rt file_data =
     (let filename = up_filename file_data;
          entry = (\<lambda>t m. case make_resume_file filename (up_content_type file_data) t of
                            Inl e \<Rightarrow> Inl (str_of_exn rt e)
                          | Inr p \<Rightarrow> Inr ((p, up_completions file_data), m))
      in case up_ocr file_data of
           OcrRaised e \<Rightarrow> Inl e
         | OcrReturned text ocr_error \<Rightarrow>
             (case (if str_truthy ocr_error then ocr_error else None) of
                Some err \<Rightarrow>
                  entry (''OCR Error: '' @ err) (Some (filename @ '': OCR Error - '' @ err))
              | None \<Rightarrow>
                  (case (if str_truthy text then text else None) of
                     None \<Rightarrow>
                       entry ''No text extracted.''
                         (Some (filename @ '': No text extracted after OCR.''))
                   | Some t \<Rightarrow> entry t None)))"

text \<open>Lines 199-229: one file of the extraction loop, with the handler of line 225. The
  handler builds a \<open>ResumeFile\<close> again; when that raises, the exception leaves the loop.\<close>

definition extract_file :: "runtime \<Rightarrow> UploadFile
    \<Rightarrow> py_exn + ((ResumeFile \<times> completions) \<times> string option)" where
  "extract_file rt file_data =
     (case extract_try rt file_data of
        Inr r \<Rightarrow> Inr r
      | Inl e \<Rightarrow>
          (case make_resume_file (up_filename file_data) (up_content_type file_data)
                  (''Processing Error: '' @ e) of
             Inl v \<Rightarrow> Inl v
           | Inr p \<Rightarrow>
               Inr ((p, up_completions file_data),
                    Some (up_filename file_data @ '': Processing Error - '' @ e))))"

fun extract_all :: "runtime \<Rightarrow> UploadFile list \<Rightarrow> (ResumeFile \<times> completions) list \<Rightarrow> string list
    \<Rightarrow> py_exn + ((ResumeFile \<times> completions) list \<times> string list)" where
  "extract_all rt [] processed_files_info error_messages_for_log =
     Inr (processed_files_info, error_messages_for_log)"
| "extract_all rt (file_data # rest) processed_files_info error_messages_for_log =
     (case extract_file rt file_data of
        Inl e \<Rightarrow> Inl e
      | Inr (p, None) \<Rightarrow> extract_all rt rest (processed_files_info @ [p]) error_messages_for_log
      | Inr (p, Some m) \<Rightarrow>
          extract_all rt rest (processed_files_info @ [p]) (error_messages_for_log @ [m]))"

text \<open>Line 232: the filter that builds \<open>valid_resumes_for_llm\<close>.\<close>

definition valid_for_llm :: "ResumeFile \<Rightarrow> bool" where
  "valid_for_llm p_file =
     (case rf_text p_file of
        None \<Rightarrow> False
      | Some t \<Rightarrow> t \<noteq> [] \<and> \<not> startswith t ''OCR Error:'' \<and> \<not> startswith t ''Processing Error:''
                  \<and> t \<noteq> ''No text extracted.'')"

definition valid_resumes_for_llm :: "(ResumeFile \<times> completions) list \<Rightarrow> (ResumeFile \<times> completions) list" where
  "valid_resumes_for_llm processed_files_info = filter (\<lambda>p. valid_for_llm (fst p)) processed_files_info"

definition placeholder_match :: "string \<Rightarrow> string \<Rightarrow> QueryMatch" where
  "placeholder_match file_name j =
     \<lparr>qm_file_name = file_name, qm_score = Finite 0, qm_justification = j,
      qm_name = None, qm_title = None\<rparr>"

text \<open>Lines 273-279: the \<open>QueryMatch(...)\<close> call; the justification is validated as a
  \<open>str\<close> field and a rejected one raises.\<close>

definition make_match :: "runtime \<Rightarrow> string \<Rightarrow> json \<times> json \<times> pyfloat option \<Rightarrow> ResumeSummary option
    \<Rightarrow> py_exn + QueryMatch" where
  "make_match rt file_name ev summary_for_details =
     (case ev of (title, justification, score) \<Rightarrow>
        (case (if justification \<noteq> JNull then validate_str rt justification
               else Some ''No justification provided.'') of
           None \<Rightarrow> Inl ValidationError
         | Some j \<Rightarrow>
             Inr \<lparr>qm_file_name = file_name,
                  qm_score = (case score of Some s \<Rightarrow> s | None \<Rightarrow> Finite 0),
                  qm_justification = j,
                  qm_name = (case summary_for_details of Some d \<Rightarrow> rs_name d | None \<Rightarrow> None),
                  qm_title = (case summary_for_details of Some d \<Rightarrow> rs_title d | None \<Rightarrow> None)\<rparr>))"

text \<open>Lines 248-292: one file of the ranking loop, with the completion calls it makes.\<close>

definition rank_file :: "runtime \<Rightarrow> string option \<Rightarrow> ResumeFile \<times> completions
    \<Rightarrow> (py_exn + QueryMatch) \<times> llm_call list" where
  "rank_file rt api_key resume_file =
     (let file_name = rf_filename (fst resume_file) in
      if str_truthy (rf_text (fst resume_file)) then
        (case c_evaluate (snd resume_file) of
           TimedOut \<Rightarrow>
             (Inr (placeholder_match file_name ranking_timeout_text), [EvaluateCall file_name])
         | Completed reply \<Rightarrow>
             (case c_summarize (snd resume_file) of
                TimedOut \<Rightarrow>
                  (Inr (placeholder_match file_name ranking_timeout_text),
                   [EvaluateCall file_name, SummarizeCall file_name])
              | Completed reply_details \<Rightarrow>
                  (make_match rt file_name (evaluate_resume rt api_key reply)
                     (summarize_resume rt api_key reply_details file_name),
                   [EvaluateCall file_name, SummarizeCall file_name])))
      else (Inr (placeholder_match file_name ignored_text), []))"

fun ranking_loop :: "runtime \<Rightarrow> string option \<Rightarrow> (ResumeFile \<times> completions) list
    \<Rightarrow> QueryMatch list \<Rightarrow> llm_call list \<Rightarrow> (py_exn + QueryMatch list) \<times> llm_call list" where
  "ranking_loop rt api_key [] ranking_results calls = (Inr ranking_results, calls)"
| "ranking_loop rt api_key (resume_file # rest) ranking_results calls =
     (case rank_file rt api_key resume_file of
        (Inl e, cs) \<Rightarrow> (Inl e, calls @ cs)
      | (Inr m, cs) \<Rightarrow> ranking_loop rt api_key rest (ranking_results @ [m]) (calls @ cs))"

text \<open>Lines 310-330: one file of the summary loop.\<close>

definition summarize_file :: "runtime \<Rightarrow> string option \<Rightarrow> ResumeFile \<times> completions
    \<Rightarrow> ResumeSummary \<times> llm_call list" where
  "summarize_file rt api_key resume_file =
     (let file_name = rf_filename (fst resume_file) in
      if str_truthy (rf_text (fst resume_file)) then
        (case c_summarize (snd resume_file) of
           TimedOut \<Rightarrow>
             (placeholder_summary file_name summary_timeout_text, [SummarizeCall file_name])
         | Completed reply \<Rightarrow>
             (case summarize_resume rt api_key reply file_name of
                Some summary \<Rightarrow> (summary, [SummarizeCall file_name])
              | None \<Rightarrow>
                  (placeholder_summary file_name summary_failed_text, [SummarizeCall file_name])))
      else (placeholder_summary file_name ignored_text, []))"

fun summaries_loop :: "runtime \<Rightarrow> string option \<Rightarrow> (ResumeFile \<times> completions) list
    \<Rightarrow> ResumeSummary list \<Rightarrow> llm_call list \<Rightarrow> ResumeSummary list \<times> llm_call list" where
  "summaries_loop rt api_key [] summaries calls = (summaries, calls)"
| "summaries_loop rt api_key (resume_file # rest) summaries calls =
     (case summarize_file rt api_key resume_file of
        (s, cs) \<Rightarrow> summaries_loop rt api_key rest (summaries @ [s]) (calls @ cs))"

text \<open>Lines 341-361: the audit record, the write that may fail, the duration logged from a
  second reading of the clock, and the response. \<open>steps\<close> is the number of collaborator
  calls that finished before the audit write.\<close>

definition audit_and_return :: "world \<Rightarrow> LogEntry list \<Rightarrow> LogEntry \<Rightarrow> analysis_response
    \<Rightarrow> llm_call list \<Rightarrow> nat \<Rightarrow> nat \<Rightarrow> outcome" where
  "audit_and_return w db log_entry response_data calls start_time steps =
     (let duration = Some (int (utcnow w (steps + 1)) - int start_time) in
      case save_log (w_db w) db log_entry of
        (Inl e, db') \<Rightarrow>
          \<lparr>response = Inr response_data, llm_calls = calls, submitted = [log_entry], logs = db',
           logged_duration = duration\<rparr>
      | (Inr saved, db') \<Rightarrow>
          \<lparr>response = Inr response_data, llm_calls = calls, submitted = [log_entry], logs = db',
           logged_duration = duration\<rparr>)"

definition unexpected :: "runtime \<Rightarrow> py_exn \<Rightarrow> HTTPException" where
  "unexpected rt e =
     HTTPException 500 (''Erro inesperado durante o processamento: '' @ str_of_exn rt e)"

definition analyze_resumes :: "world \<Rightarrow> LogEntry list \<Rightarrow> UploadFile list \<Rightarrow> string option
    \<Rightarrow> string option \<Rightarrow> string option \<Rightarrow> outcome" where
  "analyze_resumes w db files query request_id0 user_id0 =
     (if files = [] then rejected (HTTPException 400 detail_no_files) [] db
      else
        let request_id = or_default request_id0 (uuid4 w);
            user_id = or_default user_id0 (DEFAULT_USER_ID w);
            start_time = utcnow w 0
        in case read_files files [] [] of
             Inl e \<Rightarrow> rejected e [] db
           | Inr (file_contents, log_file_names) \<Rightarrow>
               (case extract_all (w_runtime w) file_contents [] [] of
                  Inl e \<Rightarrow> rejected (unexpected (w_runtime w) e) [] db
                | Inr (processed_files_info, error_messages_for_log) \<Rightarrow>
                    (let valid = valid_resumes_for_llm processed_files_info;
                         steps = length files + length file_contents;
                         log_entry = (\<lambda>final_result.
                           \<lparr>le_request_id = request_id, le_user_id = user_id,
                            le_timestamp = start_time, le_query = query,
                            le_files_processed = log_file_names, le_result = final_result,
                            le_error_message =
                              (if error_messages_for_log \<noteq> []
                               then Some (join ''; '' error_messages_for_log) else None)\<rparr>)
                     in if valid = [] then rejected (HTTPException 400 detail_no_text) [] db
                        else
                          (case (if str_truthy query then query else None) of
                             Some q \<Rightarrow>
                               (case ranking_loop (w_runtime w) (GEMINI_API_KEY w) valid [] [] of
                                  (Inl e, calls) \<Rightarrow> rejected (unexpected (w_runtime w) e) calls db
                                | (Inr unsorted, calls) \<Rightarrow>
                                    (let ranking_results = py_sort_reverse qm_score unsorted in
                                     audit_and_return w db
                                       (log_entry (RankingResult ranking_results))
                                       (Ranking \<lparr>rr_request_id = request_id, rr_user_id = user_id,
                                                 rr_query = q, rr_ranking = ranking_results\<rparr>)
                                       calls start_time (steps + length calls)))
                           | None \<Rightarrow>
                               (case summaries_loop (w_runtime w) (GEMINI_API_KEY w) valid [] [] of
                                  (summaries, calls) \<Rightarrow>
                                    audit_and_return w db
                                      (log_entry (SummariesResult summaries))
                                      (Summaries \<lparr>sr_request_id = request_id, sr_user_id = user_id,
                                                  sr_summaries = summaries\<rparr>)
                                      calls start_time (steps + length calls))))))"

text \<open>The files that reach the completion service: the extraction loop followed by the
  filter of line 232; none when the extraction loop raises.\<close>

definition eligible :: "runtime \<Rightarrow> UploadFile list \<Rightarrow> (ResumeFile \<times> completions) list" where
  "eligible rt files =
     (case extract_all rt files [] [] of
        Inl e \<Rightarrow> []
      | Inr (processed_files_info, error_messages_for_log) \<Rightarrow>
          valid_resumes_for_llm processed_files_info)"

section \<open>The classes of the specification\<close>

text \<open>
  Stated from the words of the specification (section 4.1, step 2), not from the code: the
  outcome of the extractor is usable text (a non-empty string), an OCR failure (the extractor
  reported an error) or no text found (the extractor succeeded and returned nothing).
\<close>

datatype extraction_class = UsableText | OcrFailure | NoTextFound

fun spec_extraction_class :: "ocr_result \<Rightarrow> extraction_class" where
  "spec_extraction_class (OcrRaised e) = OcrFailure"
| "spec_extraction_class (OcrReturned text ocr_error) =
     (if str_truthy ocr_error then OcrFailure
      else if str_truthy text then UsableText else NoTextFound)"

section \<open>Sample values\<close>

text \<open>A runtime for the examples: \<open>float\<close> of an int is the int, of a string it knows
  one numeral; a \<open>str\<close> field accepts a JSON string only.\<close>

fun str_items :: "json list \<Rightarrow> string list option" where
  "str_items [] = Some []"
| "str_items (JStr s # js) = map_option ((#) s) (str_items js)"
| "str_items (j # js) = None"

definition sample_runtime :: runtime where
  "sample_runtime =
     \<lparr>float_of_int = (\<lambda>i. Some (Finite (of_int i))),
      float_of_str = (\<lambda>s. if s = ''0.5'' then Some (Finite (1 / 2)) else None),
      str_of_exn = (\<lambda>e. ''error''),
      validate_str = (\<lambda>j. case j of JStr s \<Rightarrow> Some s | _ \<Rightarrow> None),
      validate_str_list = (\<lambda>j. case j of JArr js \<Rightarrow> str_items js | _ \<Rightarrow> None)\<rparr>"

definition sample_world :: world where
  "sample_world =
     \<lparr>w_runtime = sample_runtime, GEMINI_API_KEY = Some ''key'',
      DEFAULT_USER_ID = ''default-user-id'', uuid4 = ''generated-id'',
      utcnow = (\<lambda>n. 1000 + n),
      w_db = InsertOk\<rparr>"

definition sample_file :: "string \<Rightarrow> ocr_result \<Rightarrow> json timed \<Rightarrow> json timed \<Rightarrow> UploadFile" where
  "sample_file name ocr ev su =
     \<lparr>up_filename = name, up_content_type = Some ''application/pdf'', up_read = ReadOk,
      up_ocr = ocr, up_completions = \<lparr>c_evaluate = ev, c_summarize = su\<rparr>\<rparr>"

definition sample_evaluation :: "json \<Rightarrow> json" where
  "sample_evaluation score = JObj [(''justification'', JStr ''fits''), (''score'', score)]"

definition sample_summary :: json where
  "sample_summary = JObj [(''name'', JStr ''Ana''), (''summary'', JStr ''engineer'')]"

definition sample_request :: "UploadFile list" where
  "sample_request =
     [sample_file ''a.pdf'' (OcrReturned (Some ''resume a'') None)
        (Completed (sample_evaluation (JStr ''0.5''))) (Completed sample_summary),
      sample_file ''b.pdf'' (OcrReturned (Some ''resume b'') None)
        (Completed (sample_evaluation (JFloat (Finite 2)))) (Completed sample_summary),
      sample_file ''c.pdf'' (OcrReturned (Some ''resume c'') None)
        (Completed (sample_evaluation (JFloat (Finite (1 / 2))))) TimedOut,
      sample_file ''d.txt'' (OcrReturned None (Some ''unsupported''))
        (Completed JNull) (Completed JNull),
      sample_file ''e.pdf'' (OcrReturned (Some ''resume e'') None)
        TimedOut (Completed sample_summary)]"

definition sample_entry :: "string \<Rightarrow> string \<Rightarrow> json timed \<Rightarrow> json timed \<Rightarrow> ResumeFile \<times> completions" where
  "sample_entry name t ev su =
     (\<lparr>rf_filename = name, rf_content_type = ''application/pdf'', rf_text = Some t\<rparr>,
      \<lparr>c_evaluate = ev, c_summarize = su\<rparr>)"

section \<open>Properties of the Python values\<close>




lemma in_unit_zero: "in_unit_interval (Finite 0)"
  by (simp add: in_unit_interval_def)


lemma clamp_score_in_unit: "in_unit_interval (clamp_score f)"
  by (cases f) (auto simp: clamp_score_def py_min_def py_max_def in_unit_interval_def)

section \<open>Properties of the sort\<close>




lemma set_insort_lt: "set (insort_lt k x ys) = insert x (set ys)"
  by (induction ys) auto

lemma set_py_sort: "set (py_sort k xs) = set xs"
  unfolding py_sort_def by (induction xs) (simp_all add: set_insort_lt)

lemma set_py_sort_reverse: "set (py_sort_reverse k xs) = set xs"
  by (simp add: py_sort_reverse_def set_py_sort)

lemma mset_insort_lt: "mset (insort_lt k x ys) = add_mset x (mset ys)"
  by (induction ys) auto

lemma mset_py_sort: "mset (py_sort k xs) = mset xs"
  unfolding py_sort_def by (induction xs) (simp_all add: mset_insort_lt)

lemma mset_py_sort_reverse: "mset (py_sort_reverse k xs) = mset xs"
  by (simp add: py_sort_reverse_def mset_py_sort)




section \<open>Properties of llm.py\<close>

lemma evaluate_resume_score:
  "\<exists>s. snd (snd (evaluate_resume rt k reply)) = Some s \<and> in_unit_interval s"
  by (auto simp: evaluate_resume_def Let_def evaluate_failed_def clamp_score_in_unit in_unit_zero
      split: sum.splits)

lemma build_summary_file_name: "build_summary rt n kvs = Some s \<Longrightarrow> rs_file_name s = n"
  by (auto simp: build_summary_def Let_def split: option.splits)

lemma summarize_resume_file_name: "summarize_resume rt k reply n = Some s \<Longrightarrow> rs_file_name s = n"
  by (auto simp: summarize_resume_def Let_def placeholder_summary_def build_summary_file_name
      split: if_splits json.splits)

section \<open>Properties of the loops of main.py\<close>

lemma read_files_Inr:
  "read_files fs fc names = Inr (fc', names') \<Longrightarrow>
     fc' = fc @ fs \<and> names' = names @ map up_filename fs"
proof (induction fs arbitrary: fc names)
  case Nil
  then show ?case by simp
next
  case (Cons f fs)
  then have "read_files fs (fc @ [f]) (names @ [up_filename f]) = Inr (fc', names')"
    by (simp split: read_result.splits)
  from Cons.IH [OF this] show ?case by simp
qed

lemma summaries_loop_eq:
  "summaries_loop rt k fs acc calls =
     (acc @ map (\<lambda>f. fst (summarize_file rt k f)) fs,
      calls @ concat (map (\<lambda>f. snd (summarize_file rt k f)) fs))"
  by (induction fs arbitrary: acc calls) (auto split: prod.splits)

lemma ranking_loop_Inr:
  "ranking_loop rt k fs acc calls = (Inr ms, cs) \<Longrightarrow>
     \<exists>new. ms = acc @ new \<and> list_all2 (\<lambda>f m. fst (rank_file rt k f) = Inr m) fs new"
proof (induction fs arbitrary: acc calls)
  case Nil
  then show ?case by simp
next
  case (Cons f fs)
  then obtain m c where fm: "rank_file rt k f = (Inr m, c)"
    by (cases "rank_file rt k f") (auto split: sum.splits)
  with Cons.prems have "ranking_loop rt k fs (acc @ [m]) (calls @ c) = (Inr ms, cs)" by simp
  from Cons.IH [OF this] obtain new where
    "ms = (acc @ [m]) @ new" "list_all2 (\<lambda>f m. fst (rank_file rt k f) = Inr m) fs new" by blast
  with fm show ?case by (intro exI [of _ "m # new"]) simp
qed

lemma ranking_loop_all2:
  "list_all2 (\<lambda>f m. fst (rank_file rt k f) = Inr m) fs new \<Longrightarrow>
     fst (ranking_loop rt k fs acc calls) = Inr (acc @ new)"
proof (induction fs arbitrary: acc calls new)
  case Nil
  then show ?case by simp
next
  case (Cons f fs)
  then obtain m ms where new: "new = m # ms" "fst (rank_file rt k f) = Inr m"
    "list_all2 (\<lambda>f m. fst (rank_file rt k f) = Inr m) fs ms"
    by (auto simp: list_all2_Cons1)
  then obtain c where "rank_file rt k f = (Inr m, c)" by (cases "rank_file rt k f") auto
  with new Cons.IH [OF new(3)] show ?case by simp
qed

lemma make_match_props:
  "make_match rt n ev d = Inr m \<Longrightarrow>
     qm_file_name m = n \<and> qm_score m = (case snd (snd ev) of Some s \<Rightarrow> s | None \<Rightarrow> Finite 0)"
  by (cases ev) (auto simp: make_match_def split: option.splits if_splits)

lemma rank_file_props:
  assumes "fst (rank_file rt k f) = Inr m"
  shows "qm_file_name m = rf_filename (fst f)" and "in_unit_interval (qm_score m)"
proof -
  have "qm_file_name m = rf_filename (fst f) \<and> in_unit_interval (qm_score m)"
  proof (cases "str_truthy (rf_text (fst f))")
    case False
    with assms show ?thesis by (auto simp: rank_file_def Let_def placeholder_match_def in_unit_zero)
  next
    case True
    show ?thesis
    proof (cases "c_evaluate (snd f)")
      case TimedOut
      with True assms show ?thesis by (auto simp: rank_file_def Let_def placeholder_match_def in_unit_zero)
    next
      case (Completed reply)
      show ?thesis
      proof (cases "c_summarize (snd f)")
        case TimedOut
        with True Completed assms show ?thesis
          by (auto simp: rank_file_def Let_def placeholder_match_def in_unit_zero)
      next
        case (Completed reply2)
        with True \<open>c_evaluate (snd f) = Completed reply\<close> assms
        have mm: "make_match rt (rf_filename (fst f)) (evaluate_resume rt k reply)
                (summarize_resume rt k reply2 (rf_filename (fst f))) = Inr m"
          by (simp add: rank_file_def Let_def)
        from evaluate_resume_score [of rt k reply] obtain s where
          "snd (snd (evaluate_resume rt k reply)) = Some s" "in_unit_interval s" by blast
        with make_match_props [OF mm] show ?thesis by simp
      qed
    qed
  qed
  then show "qm_file_name m = rf_filename (fst f)" and "in_unit_interval (qm_score m)" by simp_all
qed

lemma summarize_file_name:
  "rs_file_name (fst (summarize_file rt k f)) = rf_filename (fst f)"
  by (auto simp: summarize_file_def placeholder_summary_def Let_def
      dest: summarize_resume_file_name split: timed.splits option.splits)

lemma analyze_ranking:
  assumes "response (analyze_resumes w db files query rid uid) = Inr (Ranking r)"
  shows "\<exists>unsorted calls.
            ranking_loop (w_runtime w) (GEMINI_API_KEY w) (eligible (w_runtime w) files) [] []
              = (Inr unsorted, calls)
          \<and> rr_ranking r = py_sort_reverse qm_score unsorted \<and> str_truthy query
          \<and> rr_query r = or_default query []"
  using assms
  by (auto simp: analyze_resumes_def Let_def rejected_def audit_and_return_def eligible_def
      or_default_def str_truthy_def
      split: if_splits sum.splits prod.splits option.splits dest!: read_files_Inr)

lemma analyze_summaries:
  assumes "response (analyze_resumes w db files query rid uid) = Inr (Summaries r)"
  shows "sr_summaries r
           = fst (summaries_loop (w_runtime w) (GEMINI_API_KEY w) (eligible (w_runtime w) files) [] [])
          \<and> \<not> str_truthy query"
  using assms
  by (auto simp: analyze_resumes_def Let_def rejected_def audit_and_return_def eligible_def
      str_truthy_def
      split: if_splits sum.splits prod.splits option.splits dest!: read_files_Inr)

section \<open>The completion service\<close>

lemma make_match_score:
  "make_match rt n (t, j, Some s) d = Inr m \<Longrightarrow> qm_score m = s"
  by (auto simp: make_match_def split: option.splits if_splits)

text \<open>
  C10. \<open>evaluate_resume\<close> returns for every key, reply and runtime a triple whose score is
  present and lies in [0, 1]. Without an API key, on a falsy reply and on a reply lacking
  \<open>justification\<close> or \<open>score\<close> the triple is (None, the invalid-format message, 0.0);
  when \<open>float\<close> rejects the score or the reply raises in the membership test or in
  \<open>get\<close> it is (None, the processing-error message, 0.0). The score of a
  \<open>QueryMatch\<close> built from the triple is therefore the returned score, never the fallback
  of the caller.
\<close>

theorem evaluate_resume_total:
  "(\<exists>t j s. evaluate_resume rt k reply = (t, j, Some s) \<and> in_unit_interval s)
   \<and> (\<not> str_truthy k \<or> \<not> truthy reply \<or> all_in [''justification'', ''score''] reply = Inr False
        \<longrightarrow> evaluate_resume rt k reply = (JNull, JStr eval_invalid_text, Some (Finite 0)))
   \<and> (\<forall>v e. str_truthy k \<and> truthy reply \<and> all_in [''justification'', ''score''] reply = Inr True
          \<and> py_get reply ''score'' (JFloat (Finite 0)) = Inr v \<and> py_float rt v = Inl e
        \<longrightarrow> evaluate_resume rt k reply
              = (JNull, JStr (''Erro no processamento: '' @ str_of_exn rt e), Some (Finite 0)))
   \<and> (\<forall>e. str_truthy k \<and> truthy reply
          \<and> (all_in [''justification'', ''score''] reply = Inl e
              \<or> all_in [''justification'', ''score''] reply = Inr True
                \<and> py_get reply ''score'' (JFloat (Finite 0)) = Inl e)
        \<longrightarrow> evaluate_resume rt k reply
              = (JNull, JStr (''Erro no processamento: '' @ str_of_exn rt e), Some (Finite 0)))
   \<and> (\<forall>n d m. make_match rt n (evaluate_resume rt k reply) d = Inr m
        \<longrightarrow> snd (snd (evaluate_resume rt k reply)) = Some (qm_score m))"
proof (intro conjI)
  obtain t j sc where tj: "evaluate_resume rt k reply = (t, j, sc)"
    by (cases "evaluate_resume rt k reply") auto
  from evaluate_resume_score [of rt k reply] tj
  obtain s where s: "sc = Some s" "in_unit_interval s" by auto
  with tj show "\<exists>t j s. evaluate_resume rt k reply = (t, j, Some s) \<and> in_unit_interval s"
    by blast
  from tj s show "\<forall>n d m. make_match rt n (evaluate_resume rt k reply) d = Inr m
        \<longrightarrow> snd (snd (evaluate_resume rt k reply)) = Some (qm_score m)"
    by (auto dest: make_match_score)
next
  show "\<not> str_truthy k \<or> \<not> truthy reply \<or> all_in [''justification'', ''score''] reply = Inr False
        \<longrightarrow> evaluate_resume rt k reply = (JNull, JStr eval_invalid_text, Some (Finite 0))"
    by (auto simp: evaluate_resume_def call_gemini_api_def)
next
  show "\<forall>v e. str_truthy k \<and> truthy reply \<and> all_in [''justification'', ''score''] reply = Inr True
          \<and> py_get reply ''score'' (JFloat (Finite 0)) = Inr v \<and> py_float rt v = Inl e
        \<longrightarrow> evaluate_resume rt k reply
              = (JNull, JStr (''Erro no processamento: '' @ str_of_exn rt e), Some (Finite 0))"
    by (simp add: evaluate_resume_def call_gemini_api_def evaluate_failed_def)
next
  show "\<forall>e. str_truthy k \<and> truthy reply
          \<and> (all_in [''justification'', ''score''] reply = Inl e
              \<or> all_in [''justification'', ''score''] reply = Inr True
                \<and> py_get reply ''score'' (JFloat (Finite 0)) = Inl e)
        \<longrightarrow> evaluate_resume rt k reply
              = (JNull, JStr (''Erro no processamento: '' @ str_of_exn rt e), Some (Finite 0))"
    by (auto simp: evaluate_resume_def call_gemini_api_def evaluate_failed_def)
qed

lemmas ev_simps = evaluate_resume_def call_gemini_api_def str_truthy_def sample_runtime_def
  sample_evaluation_def evaluate_failed_def make_match_def clamp_score_def py_min_def py_max_def
  in_unit_interval_def

theorem evaluate_resume_total_witness:
  "evaluate_resume sample_runtime None (sample_evaluation (JFloat (Finite 2)))
     = (JNull, JStr eval_invalid_text, Some (Finite 0))
   \<and> evaluate_resume sample_runtime (Some ''key'') (sample_evaluation (JStr ''abc''))
     = (JNull, JStr ''Erro no processamento: error'', Some (Finite 0))
   \<and> evaluate_resume sample_runtime (Some ''key'') (JInt 5)
     = (JNull, JStr ''Erro no processamento: error'', Some (Finite 0))
   \<and> evaluate_resume sample_runtime (Some ''key'') (sample_evaluation (JFloat (Finite 2)))
     = (JNull, JStr ''fits'', Some (Finite 1))
   \<and> make_match sample_runtime ''a.pdf''
        (evaluate_resume sample_runtime (Some ''key'') (sample_evaluation (JFloat (Finite 2)))) None
     = Inr \<lparr>qm_file_name = ''a.pdf'', qm_score = Finite 1, qm_justification = ''fits'',
            qm_name = None, qm_title = None\<rparr>"
proof -
  let ?ok = "sample_evaluation (JFloat (Finite 2))"
  let ?m = "\<lparr>qm_file_name = ''a.pdf'', qm_score = Finite 1, qm_justification = ''fits'',
            qm_name = None, qm_title = None\<rparr>"
  have a: "\<not> str_truthy None" by (simp add: str_truthy_def)
  have b: "str_truthy (Some ''key'') \<and> truthy (sample_evaluation (JStr ''abc''))
      \<and> all_in [''justification'', ''score''] (sample_evaluation (JStr ''abc'')) = Inr True
      \<and> py_get (sample_evaluation (JStr ''abc'')) ''score'' (JFloat (Finite 0)) = Inr (JStr ''abc'')
      \<and> py_float sample_runtime (JStr ''abc'') = Inl ValueError"
    by (simp add: ev_simps)
  have c: "str_truthy (Some ''key'') \<and> truthy (JInt 5)
      \<and> all_in [''justification'', ''score''] (JInt 5) = Inl TypeError"
    by (simp add: ev_simps)
  have e: "evaluate_resume sample_runtime (Some ''key'') ?ok = (JNull, JStr ''fits'', Some (Finite 1))"
    by (simp add: ev_simps)
  have d: "make_match sample_runtime ''a.pdf'' (evaluate_resume sample_runtime (Some ''key'') ?ok) None
      = Inr ?m"
    by (simp add: ev_simps)
  note t1 = evaluate_resume_total [of sample_runtime None ?ok]
  note t2 = evaluate_resume_total [of sample_runtime "Some ''key''" "sample_evaluation (JStr ''abc'')"]
  note t3 = evaluate_resume_total [of sample_runtime "Some ''key''" "JInt 5"]
  note t4 = evaluate_resume_total [of sample_runtime "Some ''key''" ?ok]
  from t1 a have r1: "evaluate_resume sample_runtime None ?ok
      = (JNull, JStr eval_invalid_text, Some (Finite 0))" by blast
  from t2 b have r2: "evaluate_resume sample_runtime (Some ''key'') (sample_evaluation (JStr ''abc''))
      = (JNull, JStr (''Erro no processamento: '' @ str_of_exn sample_runtime ValueError), Some (Finite 0))"
    by blast
  from t3 c have r3: "evaluate_resume sample_runtime (Some ''key'') (JInt 5)
      = (JNull, JStr (''Erro no processamento: '' @ str_of_exn sample_runtime TypeError), Some (Finite 0))"
    by blast
  from t4 d have r4: "snd (snd (evaluate_resume sample_runtime (Some ''key'') ?ok)) = Some (qm_score ?m)"
    by blast
  from r1 r2 r3 r4 e d show ?thesis by (simp add: sample_runtime_def)
qed

section \<open>The request handler\<close>

lemmas run_simps = analyze_resumes_def Let_def rejected_def audit_and_return_def save_log_def
  extract_file_def extract_try_def make_resume_file_def unexpected_def
  valid_resumes_for_llm_def valid_for_llm_def rank_file_def
  summarize_file_def summarize_resume_def build_summary_def opt_field_def
  placeholder_summary_def placeholder_match_def py_sort_reverse_def py_sort_def or_default_def
  sample_world_def sample_file_def sample_summary_def eligible_def ev_simps

text \<open>
  C1. The shape of the response of an accepted request is decided by the query alone: a
  query that is present and not empty gives a \<open>RankingResponse\<close>, an absent or empty one a
  \<open>SummariesResponse\<close>.
\<close>

theorem response_shape_by_query:
  assumes "response (analyze_resumes w db files query rid uid) = Inr resp"
  shows "(str_truthy query \<longrightarrow> (\<exists>r. resp = Ranking r))
       \<and> (\<not> str_truthy query \<longrightarrow> (\<exists>s. resp = Summaries s))"
proof (cases resp)
  case (Summaries s)
  with assms analyze_summaries [of w db files query rid uid s] show ?thesis by simp
next
  case (Ranking r)
  with assms analyze_ranking [of w db files query rid uid r] show ?thesis by auto
qed

theorem response_shape_by_query_witness:
  "str_truthy (Some ''python'')
   \<and> (\<exists>r. response (analyze_resumes sample_world []
          [sample_file ''a.pdf'' (OcrReturned (Some ''resume text'') None)
             (Completed (sample_evaluation (JFloat (Finite 2)))) (Completed sample_summary)]
          (Some ''python'') None None) = Inr (Ranking r))
   \<and> \<not> str_truthy (Some [])
   \<and> (\<exists>s. response (analyze_resumes sample_world []
          [sample_file ''a.pdf'' (OcrReturned (Some ''resume text'') None)
             (Completed (sample_evaluation (JFloat (Finite 2)))) (Completed sample_summary)]
          (Some []) None None) = Inr (Summaries s))"
proof -
  let ?fs = "[sample_file ''a.pdf'' (OcrReturned (Some ''resume text'') None)
             (Completed (sample_evaluation (JFloat (Finite 2)))) (Completed sample_summary)]"
  have a: "\<exists>resp. response (analyze_resumes sample_world [] ?fs (Some ''python'') None None) = Inr resp"
    by (simp add: run_simps)
  have b: "\<exists>resp. response (analyze_resumes sample_world [] ?fs (Some []) None None) = Inr resp"
    by (simp add: run_simps)
  have ta: "str_truthy (Some ''python'')" and tb: "\<not> str_truthy (Some [])"
    by (simp_all add: str_truthy_def)
  from a obtain ra where ra: "response (analyze_resumes sample_world [] ?fs (Some ''python'') None None) = Inr ra"
    by blast
  from b obtain rb where rb: "response (analyze_resumes sample_world [] ?fs (Some []) None None) = Inr rb"
    by blast
  from response_shape_by_query [OF ra] ta ra
  have 1: "\<exists>r. response (analyze_resumes sample_world [] ?fs (Some ''python'') None None) = Inr (Ranking r)"
    by auto
  from response_shape_by_query [OF rb] tb rb
  have 2: "\<exists>s. response (analyze_resumes sample_world [] ?fs (Some []) None None) = Inr (Summaries s)"
    by auto
  from 1 2 ta tb show ?thesis by blast
qed

lemma ranking_entries:
  assumes "response (analyze_resumes w db files query rid uid) = Inr (Ranking r)"
  shows "\<exists>unsorted.
           list_all2 (\<lambda>f m. fst (rank_file (w_runtime w) (GEMINI_API_KEY w) f) = Inr m)
             (eligible (w_runtime w) files) unsorted
         \<and> rr_ranking r = py_sort_reverse qm_score unsorted"
proof -
  from analyze_ranking [OF assms] obtain unsorted calls where
    l: "ranking_loop (w_runtime w) (GEMINI_API_KEY w) (eligible (w_runtime w) files) [] [] = (Inr unsorted, calls)"
    and r: "rr_ranking r = py_sort_reverse qm_score unsorted" by blast
  from ranking_loop_Inr [OF l] r show ?thesis by auto
qed

lemma all2_scores:
  "list_all2 (\<lambda>f m. fst (rank_file rt k f) = Inr m) fs ms \<Longrightarrow>
     \<forall>m\<in>set ms. in_unit_interval (qm_score m)"
  by (induction rule: list_all2_induct) (auto dest: rank_file_props(2))

lemma all2_names:
  "list_all2 (\<lambda>f m. fst (rank_file rt k f) = Inr m) fs ms \<Longrightarrow>
     map qm_file_name ms = map (\<lambda>f. rf_filename (fst f)) fs"
  by (induction rule: list_all2_induct) (auto dest: rank_file_props(1))


text \<open>
  C5. Every score of a returned ranking lies in [0, 1], whatever the completion service
  replies and whether or not its calls time out.
\<close>

theorem ranking_scores_in_unit_interval:
  assumes "response (analyze_resumes w db files query rid uid) = Inr (Ranking r)"
  shows "\<forall>m\<in>set (rr_ranking r). in_unit_interval (qm_score m)"
proof -
  from ranking_entries [OF assms] obtain unsorted where
    u: "list_all2 (\<lambda>f m. fst (rank_file (w_runtime w) (GEMINI_API_KEY w) f) = Inr m)
          (eligible (w_runtime w) files) unsorted"
    and r: "rr_ranking r = py_sort_reverse qm_score unsorted" by blast
  from all2_scores [OF u] r show ?thesis by (simp add: set_py_sort_reverse)
qed

section \<open>Sample runs\<close>

lemma sample_ranking_run:
  "\<exists>r. response (analyze_resumes sample_world [] sample_request (Some ''python'') None None)
          = Inr (Ranking r)
       \<and> map qm_file_name (rr_ranking r) = [''b.pdf'', ''a.pdf'', ''c.pdf'', ''e.pdf'']
       \<and> map qm_score (rr_ranking r) = [Finite 1, Finite (1 / 2), Finite 0, Finite 0]"
  by (simp add: run_simps sample_request_def)

lemma sample_summary_run:
  "\<exists>s. response (analyze_resumes sample_world [] sample_request None None None)
          = Inr (Summaries s)
       \<and> map rs_file_name (sr_summaries s) = [''a.pdf'', ''b.pdf'', ''c.pdf'', ''e.pdf'']
       \<and> map rs_summary (sr_summaries s)
           = [''engineer'', ''engineer'', summary_timeout_text, ''engineer'']"
  by (simp add: run_simps sample_request_def)

lemma sample_eligible:
  "map (\<lambda>f. rf_filename (fst f)) (eligible (w_runtime sample_world) sample_request) = [''a.pdf'', ''b.pdf'', ''c.pdf'', ''e.pdf'']"
  by (simp add: run_simps sample_request_def)


theorem ranking_scores_in_unit_interval_witness:
  "\<exists>r. response (analyze_resumes sample_world [] sample_request (Some ''python'') None None)
          = Inr (Ranking r)
       \<and> map qm_score (rr_ranking r) = [Finite 1, Finite (1 / 2), Finite 0, Finite 0]
       \<and> list_all (\<lambda>m. in_unit_interval (qm_score m)) (rr_ranking r)"
proof -
  from sample_ranking_run obtain r where
    h: "response (analyze_resumes sample_world [] sample_request (Some ''python'') None None)
          = Inr (Ranking r)"
    and n: "map qm_score (rr_ranking r) = [Finite 1, Finite (1 / 2), Finite 0, Finite 0]"
    by auto
  from ranking_scores_in_unit_interval [OF h]
  have "list_all (\<lambda>m. in_unit_interval (qm_score m)) (rr_ranking r)"
    by (simp add: list_all_iff)
  with h n show ?thesis by auto
qed

section \<open>Requests without usable text\<close>

lemma startswith_prefix: "startswith (p @ q @ s) p"
  by (induction p) auto

lemma unusable_extract:
  assumes "up_content_type f = Some c" and "spec_extraction_class (up_ocr f) \<noteq> UsableText"
  shows "\<exists>p m. extract_file rt f = Inr (p, Some m) \<and> \<not> valid_for_llm (fst p)"
proof -
  have ocr: "startswith (''OCR Error: '' @ e) ''OCR Error:''" for e
    using startswith_prefix [of "''OCR Error:''" "'' ''" e] by simp
  have pe: "startswith (''Processing Error: '' @ e) ''Processing Error:''" for e
    using startswith_prefix [of "''Processing Error:''" "'' ''" e] by simp
  show ?thesis
  proof (cases "up_ocr f")
    case (OcrRaised e)
    with assms(1) pe show ?thesis
      by (simp add: extract_file_def extract_try_def make_resume_file_def valid_for_llm_def
          Let_def)
  next
    case (OcrReturned t err)
    with assms ocr show ?thesis
      by (auto simp: extract_file_def extract_try_def make_resume_file_def valid_for_llm_def
          Let_def str_truthy_def split: if_splits option.splits)
  qed
qed

lemma extract_all_unusable:
  assumes "\<forall>f\<in>set fs. \<exists>p m. extract_file rt f = Inr (p, Some m) \<and> \<not> valid_for_llm (fst p)"
  shows "\<exists>p' e'. extract_all rt fs p e = Inr (p @ p', e') \<and> (\<forall>x\<in>set p'. \<not> valid_for_llm (fst x))"
  using assms
proof (induction fs arbitrary: p e)
  case Nil
  then show ?case by simp
next
  case (Cons f fs)
  then obtain x m where x: "extract_file rt f = Inr (x, Some m)" "\<not> valid_for_llm (fst x)"
    by auto
  from Cons.prems have "\<forall>f\<in>set fs. \<exists>p m. extract_file rt f = Inr (p, Some m) \<and> \<not> valid_for_llm (fst p)"
    by simp
  from Cons.IH [OF this, of "p @ [x]" "e @ [m]"] obtain p' e' where
    "extract_all rt fs (p @ [x]) (e @ [m]) = Inr ((p @ [x]) @ p', e')"
    "\<forall>y\<in>set p'. \<not> valid_for_llm (fst y)" by blast
  with x show ?case by (intro exI [of _ "x # p'"] exI [of _ e']) simp
qed

lemma read_files_total:
  "\<exists>d. read_files fs fc names = Inl (HTTPException 400 d)
     \<or> read_files fs fc names = Inr (fc @ fs, names @ map up_filename fs)"
proof (induction fs arbitrary: fc names)
  case Nil
  then show ?case by simp
next
  case (Cons f fs)
  show ?case
  proof (cases "up_read f")
    case ReadOk
    with Cons [of "fc @ [f]" "names @ [up_filename f]"] show ?thesis by auto
  next
    case (ReadRaised e)
    then show ?thesis by simp
  qed
qed

text \<open>Where every part declares a content type, a request without files and a request none
  of whose files has usable text, in the words of the specification, end with 400 before any
  completion call and any audit record.\<close>

lemma unusable_files_rejected:
  assumes "files = [] \<or> (\<forall>f\<in>set files. up_content_type f \<noteq> None
                              \<and> spec_extraction_class (up_ocr f) \<noteq> UsableText)"
  shows "\<exists>d. analyze_resumes w db files query rid uid
           = \<lparr>response = Inl (HTTPException 400 d), llm_calls = [], submitted = [], logs = db,
              logged_duration = None\<rparr>"
proof (cases "files = []")
  case True
  then show ?thesis by (simp add: analyze_resumes_def rejected_def)
next
  case False
  have "\<exists>p m. extract_file (w_runtime w) f = Inr (p, Some m) \<and> \<not> valid_for_llm (fst p)"
    if "f \<in> set files" for f
  proof -
    from assms False that obtain c where "up_content_type f = Some c"
      and "spec_extraction_class (up_ocr f) \<noteq> UsableText" by auto
    then show ?thesis by (rule unusable_extract)
  qed
  then have "\<forall>f\<in>set files. \<exists>p m. extract_file (w_runtime w) f = Inr (p, Some m)
      \<and> \<not> valid_for_llm (fst p)" by blast
  from extract_all_unusable [OF this, of "[]" "[]"] obtain p' e' where
    x: "extract_all (w_runtime w) files [] [] = Inr (p', e')"
    and v: "\<forall>y\<in>set p'. \<not> valid_for_llm (fst y)" by auto
  from v have e: "valid_resumes_for_llm p' = []"
    by (simp add: valid_resumes_for_llm_def filter_empty_conv)
  from read_files_total [of files "[]" "[]"] obtain d where
    "read_files files [] [] = Inl (HTTPException 400 d)
     \<or> read_files files [] [] = Inr (files, map up_filename files)" by auto
  then show ?thesis
  proof
    assume "read_files files [] [] = Inl (HTTPException 400 d)"
    with False show ?thesis by (simp add: analyze_resumes_def rejected_def)
  next
    assume "read_files files [] [] = Inr (files, map up_filename files)"
    with False x e show ?thesis by (simp add: analyze_resumes_def rejected_def Let_def)
  qed
qed

text \<open>
  C7. The part of the only file of a request has no \<open>Content-Type\<close> header and the
  extractor reports an error for it, so no file yields usable text. \<open>ResumeFile(...)\<close>
  raises at line 212 and again in the handler at line 227; the request ends with HTTP 500,
  not 400. No completion call is made and no audit record is written. The same request with
  the header ends with 400.
\<close>

theorem unusable_file_without_content_type:
  "spec_extraction_class (OcrReturned None (Some ''unsupported'')) = OcrFailure
   \<and> analyze_resumes sample_world []
        [(sample_file ''d.txt'' (OcrReturned None (Some ''unsupported''))
            (Completed JNull) (Completed JNull))\<lparr>up_content_type := None\<rparr>] None None None
      = \<lparr>response = Inl (HTTPException 500 ''Erro inesperado durante o processamento: error''),
         llm_calls = [], submitted = [], logs = [], logged_duration = None\<rparr>
   \<and> analyze_resumes sample_world []
        [sample_file ''d.txt'' (OcrReturned None (Some ''unsupported''))
            (Completed JNull) (Completed JNull)] None None None
      = \<lparr>response = Inl (HTTPException 400 detail_no_text),
         llm_calls = [], submitted = [], logs = [], logged_duration = None\<rparr>"
  by (simp add: run_simps)

section \<open>Files with usable text that get no entry\<close>

text \<open>
  C3. Two requests in which files with usable text get no entry. In the first the text of
  \<open>notes.pdf\<close> begins with \<open>OCR Error:\<close>, without an error of the extractor: the request is
  answered, in either mode, with one entry for two files with usable text. In the second the
  completion service answers for \<open>b.pdf\<close> with a justification that is a list:
  \<open>QueryMatch(...)\<close> raises at line 273, the request ends with HTTP 500, no file gets an
  entry and \<open>c.pdf\<close> is never evaluated.
\<close>

theorem usable_files_without_entry:
  "spec_extraction_class (OcrReturned (Some ''resume a'') None) = UsableText
   \<and> spec_extraction_class (OcrReturned (Some ''OCR Error: rates of three engines compared'') None)
       = UsableText
   \<and> (\<exists>s. response (analyze_resumes sample_world []
              [sample_file ''a.pdf'' (OcrReturned (Some ''resume a'') None)
                 (Completed (sample_evaluation (JFloat (Finite (1 / 2))))) (Completed sample_summary),
               sample_file ''notes.pdf''
                 (OcrReturned (Some ''OCR Error: rates of three engines compared'') None)
                 (Completed (sample_evaluation (JFloat (Finite (1 / 2))))) (Completed sample_summary)]
              None None None) = Inr (Summaries s)
          \<and> map rs_file_name (sr_summaries s) = [''a.pdf''])
   \<and> (\<exists>r. response (analyze_resumes sample_world []
              [sample_file ''a.pdf'' (OcrReturned (Some ''resume a'') None)
                 (Completed (sample_evaluation (JFloat (Finite (1 / 2))))) (Completed sample_summary),
               sample_file ''notes.pdf''
                 (OcrReturned (Some ''OCR Error: rates of three engines compared'') None)
                 (Completed (sample_evaluation (JFloat (Finite (1 / 2))))) (Completed sample_summary)]
              (Some ''python'') None None) = Inr (Ranking r)
          \<and> map qm_file_name (rr_ranking r) = [''a.pdf''])
   \<and> analyze_resumes sample_world []
        [sample_file ''a.pdf'' (OcrReturned (Some ''resume a'') None)
           (Completed (sample_evaluation (JFloat (Finite (1 / 2))))) (Completed sample_summary),
         sample_file ''b.pdf'' (OcrReturned (Some ''resume b'') None)
           (Completed (JObj [(''justification'', JArr [JStr ''fits'']),
                             (''score'', JFloat (Finite (1 / 2)))]))
           (Completed sample_summary),
         sample_file ''c.pdf'' (OcrReturned (Some ''resume c'') None)
           (Completed (sample_evaluation (JFloat (Finite (1 / 2))))) (Completed sample_summary)]
        (Some ''python'') None None
      = \<lparr>response = Inl (HTTPException 500 ''Erro inesperado durante o processamento: error''),
         llm_calls = [EvaluateCall ''a.pdf'', SummarizeCall ''a.pdf'',
                      EvaluateCall ''b.pdf'', SummarizeCall ''b.pdf''],
         submitted = [], logs = [], logged_duration = None\<rparr>"
  by (simp add: run_simps)

section \<open>Audit record and audit failures\<close>

lemma audit_and_return_fields:
  "response (audit_and_return w db e resp calls st n) = Inr resp"
  "llm_calls (audit_and_return w db e resp calls st n) = calls"
  "submitted (audit_and_return w db e resp calls st n) = [e]"
  "logged_duration (audit_and_return w db e resp calls st n)
     = Some (int (utcnow w (n + 1)) - int st)"
  by (auto simp: audit_and_return_def Let_def split: prod.splits sum.splits)

text \<open>
  C8. The response, the completion calls and the record handed to the store are the same
  whatever the store does with the record: insert it, fail to insert it, or be unreachable.
\<close>

theorem audit_failure_keeps_response:
  "response (analyze_resumes (w\<lparr>w_db := b1\<rparr>) db files query rid uid)
     = response (analyze_resumes (w\<lparr>w_db := b2\<rparr>) db files query rid uid)
   \<and> llm_calls (analyze_resumes (w\<lparr>w_db := b1\<rparr>) db files query rid uid)
     = llm_calls (analyze_resumes (w\<lparr>w_db := b2\<rparr>) db files query rid uid)
   \<and> submitted (analyze_resumes (w\<lparr>w_db := b1\<rparr>) db files query rid uid)
     = submitted (analyze_resumes (w\<lparr>w_db := b2\<rparr>) db files query rid uid)"
  by (simp add: analyze_resumes_def Let_def rejected_def audit_and_return_fields
      split: sum.splits prod.splits option.splits)

text \<open>
  C9. For an accepted request exactly one audit record is handed to the store. Its
  \<open>files_processed\<close> is the list of the names of all submitted files in their order. Its
  timestamp is the reading of the clock taken when no file had yet been read, extracted from
  or sent to the completion service (line 171); the reading of line 359, taken after every
  file read, every extraction, every completion call and the audit write, only enters the
  logged duration, which is counted from the timestamp.
\<close>

theorem audit_record_lists_all_files:
  assumes "response (analyze_resumes w db files query rid uid) = Inr resp"
  shows "\<exists>e. submitted (analyze_resumes w db files query rid uid) = [e]
           \<and> le_files_processed e = map up_filename files
           \<and> le_timestamp e = utcnow w 0
           \<and> logged_duration (analyze_resumes w db files query rid uid)
               = Some (int (utcnow w (2 * length files
                                       + length (llm_calls (analyze_resumes w db files query rid uid))
                                       + 1))
                       - int (le_timestamp e))"
  using assms
  by (auto simp: analyze_resumes_def Let_def rejected_def audit_and_return_fields str_truthy_def
      mult_2
      split: if_splits sum.splits prod.splits option.splits dest!: read_files_Inr)

theorem audit_record_lists_all_files_witness:
  "\<exists>e resp. response (analyze_resumes sample_world [] sample_request (Some ''python'') None None)
             = Inr resp
       \<and> submitted (analyze_resumes sample_world [] sample_request (Some ''python'') None None) = [e]
       \<and> le_files_processed e = [''a.pdf'', ''b.pdf'', ''c.pdf'', ''d.txt'', ''e.pdf'']
       \<and> le_timestamp e = 1000
       \<and> logged_duration (analyze_resumes sample_world [] sample_request (Some ''python'') None None)
           = Some 18"
proof -
  from sample_ranking_run obtain r where
    h: "response (analyze_resumes sample_world [] sample_request (Some ''python'') None None)
          = Inr (Ranking r)" by auto
  have c: "length (llm_calls (analyze_resumes sample_world [] sample_request (Some ''python'') None None))
             = 7"
    by (simp add: run_simps sample_request_def)
  from audit_record_lists_all_files [OF h] h c show ?thesis
    by (auto simp: sample_request_def sample_file_def sample_world_def)
qed

section \<open>Timeouts of the completion calls\<close>

lemma read_files_ok:
  "\<forall>u\<in>set fs. up_read u = ReadOk \<Longrightarrow>
     read_files fs fc names = Inr (fc @ fs, names @ map up_filename fs)"
  by (induction fs arbitrary: fc names) auto

lemma eligible_text:
  assumes "f \<in> set (eligible rt files)"
  shows "str_truthy (rf_text (fst f))"
  using assms
  by (auto simp: eligible_def valid_resumes_for_llm_def valid_for_llm_def str_truthy_def
      split: option.splits sum.splits)

lemma eligible_extracted:
  assumes "eligible rt files \<noteq> []"
  shows "\<exists>p errs. extract_all rt files [] [] = Inr (p, errs)
           \<and> valid_resumes_for_llm p = eligible rt files"
  using assms by (auto simp: eligible_def split: sum.splits)

lemma analyze_accepted_summaries:
  assumes "files \<noteq> []" and "\<forall>u\<in>set files. up_read u = ReadOk"
    and "eligible (w_runtime w) files \<noteq> []" and "\<not> str_truthy query"
  shows "\<exists>s. response (analyze_resumes w db files query rid uid) = Inr (Summaries s)
           \<and> sr_summaries s
               = map (\<lambda>g. fst (summarize_file (w_runtime w) (GEMINI_API_KEY w) g))
                   (eligible (w_runtime w) files)"
proof -
  from eligible_extracted [OF assms(3)] obtain p errs where
    x: "extract_all (w_runtime w) files [] [] = Inr (p, errs)"
    and v: "valid_resumes_for_llm p = eligible (w_runtime w) files" by blast
  from v assms(3) have ne: "valid_resumes_for_llm p \<noteq> []" by simp
  show ?thesis
    using assms(1,4) x ne read_files_ok [OF assms(2), of "[]" "[]"]
    by (simp add: analyze_resumes_def Let_def audit_and_return_fields summaries_loop_eq
        v [symmetric])
qed

lemma analyze_accepted_ranking:
  assumes "files \<noteq> []" and "\<forall>u\<in>set files. up_read u = ReadOk"
    and "eligible (w_runtime w) files \<noteq> []" and "str_truthy query"
    and "list_all2 (\<lambda>g m. fst (rank_file (w_runtime w) (GEMINI_API_KEY w) g) = Inr m)
           (eligible (w_runtime w) files) ms"
  shows "\<exists>r. response (analyze_resumes w db files query rid uid) = Inr (Ranking r)
           \<and> rr_ranking r = py_sort_reverse qm_score ms"
proof -
  from eligible_extracted [OF assms(3)] obtain p errs where
    x: "extract_all (w_runtime w) files [] [] = Inr (p, errs)"
    and v: "valid_resumes_for_llm p = eligible (w_runtime w) files" by blast
  from v assms(3) have ne: "valid_resumes_for_llm p \<noteq> []" by simp
  from ranking_loop_all2 [OF assms(5), of "[]" "[]"] obtain calls where
    l: "ranking_loop (w_runtime w) (GEMINI_API_KEY w) (valid_resumes_for_llm p) [] []
          = (Inr ms, calls)"
    by (cases "ranking_loop (w_runtime w) (GEMINI_API_KEY w) (eligible (w_runtime w) files) [] []")
      (auto simp: v)
  from assms(4) obtain q where q: "query = Some q" "q \<noteq> []"
    by (auto simp: str_truthy_def split: option.splits)
  show ?thesis
    using assms(1) q x ne l read_files_ok [OF assms(2), of "[]" "[]"]
    by (simp add: analyze_resumes_def Let_def audit_and_return_fields str_truthy_def)
qed

lemma rank_file_timeout:
  assumes "str_truthy (rf_text (fst f))"
    and "c_evaluate (snd f) = TimedOut \<or> c_summarize (snd f) = TimedOut"
  shows "fst (rank_file rt k f) = Inr (placeholder_match (rf_filename (fst f)) ranking_timeout_text)"
  using assms by (auto simp: rank_file_def Let_def split: timed.splits)

lemma summarize_file_timeout:
  assumes "str_truthy (rf_text (fst f))" and "c_summarize (snd f) = TimedOut"
  shows "fst (summarize_file rt k f) = placeholder_summary (rf_filename (fst f)) summary_timeout_text"
  using assms by (simp add: summarize_file_def Let_def)

text \<open>
  C6. Let the eligible files of a request whose files were all read be \<open>pre\<close>, then a file
  \<open>f\<close>, then \<open>post\<close>. In summary mode, if the summarisation of \<open>f\<close> times out, the request
  is answered, with the summaries of \<open>pre\<close>, an entry for \<open>f\<close> whose summary is the timeout
  text, and the summaries of \<open>post\<close>. In ranking mode, if either completion call of \<open>f\<close>
  times out and the other files give their entries, the request is answered with the
  sorted list of the entries of \<open>pre\<close>, an entry for \<open>f\<close> with score 0.0 and the timeout
  justification, and the entries of \<open>post\<close>.
\<close>

theorem timeout_yields_placeholder:
  assumes "files \<noteq> []" and "\<forall>u\<in>set files. up_read u = ReadOk"
    and "eligible (w_runtime w) files = pre @ f # post"
  shows "(\<not> str_truthy query \<and> c_summarize (snd f) = TimedOut \<longrightarrow>
           (\<exists>s. response (analyze_resumes w db files query rid uid) = Inr (Summaries s)
              \<and> sr_summaries s =
                  map (\<lambda>g. fst (summarize_file (w_runtime w) (GEMINI_API_KEY w) g)) pre
                  @ \<lparr>rs_file_name = rf_filename (fst f), rs_summary = summary_timeout_text,
                      rs_name = None, rs_title = None, rs_technologies = None,
                      rs_experiences = None, rs_education = None\<rparr>
                  # map (\<lambda>g. fst (summarize_file (w_runtime w) (GEMINI_API_KEY w) g)) post))
       \<and> (str_truthy query \<and> (c_evaluate (snd f) = TimedOut \<or> c_summarize (snd f) = TimedOut) \<longrightarrow>
           (\<forall>a b. list_all2 (\<lambda>g m. fst (rank_file (w_runtime w) (GEMINI_API_KEY w) g) = Inr m) pre a
                \<and> list_all2 (\<lambda>g m. fst (rank_file (w_runtime w) (GEMINI_API_KEY w) g) = Inr m) post b
              \<longrightarrow> (\<exists>r. response (analyze_resumes w db files query rid uid) = Inr (Ranking r)
                     \<and> rr_ranking r = py_sort_reverse qm_score
                         (a @ \<lparr>qm_file_name = rf_filename (fst f), qm_score = Finite 0,
                               qm_justification = ranking_timeout_text,
                               qm_name = None, qm_title = None\<rparr> # b))))"
proof (intro conjI impI allI)
  from assms(3) have ne: "eligible (w_runtime w) files \<noteq> []" by simp
  from assms(3) have "f \<in> set (eligible (w_runtime w) files)" by simp
  then have t: "str_truthy (rf_text (fst f))" by (rule eligible_text)
  {
    assume h: "\<not> str_truthy query \<and> c_summarize (snd f) = TimedOut"
    from analyze_accepted_summaries [OF assms(1,2) ne, of query db rid uid] h obtain s where
      s: "response (analyze_resumes w db files query rid uid) = Inr (Summaries s)"
         "sr_summaries s
            = map (\<lambda>g. fst (summarize_file (w_runtime w) (GEMINI_API_KEY w) g)) (eligible (w_runtime w) files)"
      by auto
    from h t have "fst (summarize_file (w_runtime w) (GEMINI_API_KEY w) f)
        = placeholder_summary (rf_filename (fst f)) summary_timeout_text"
      by (simp add: summarize_file_timeout)
    with s assms(3)
    show "\<exists>s. response (analyze_resumes w db files query rid uid) = Inr (Summaries s)
              \<and> sr_summaries s =
                  map (\<lambda>g. fst (summarize_file (w_runtime w) (GEMINI_API_KEY w) g)) pre
                  @ \<lparr>rs_file_name = rf_filename (fst f), rs_summary = summary_timeout_text,
                      rs_name = None, rs_title = None, rs_technologies = None,
                      rs_experiences = None, rs_education = None\<rparr>
                  # map (\<lambda>g. fst (summarize_file (w_runtime w) (GEMINI_API_KEY w) g)) post"
      by (simp add: placeholder_summary_def)
  }
  {
    fix a b
    assume h: "str_truthy query \<and> (c_evaluate (snd f) = TimedOut \<or> c_summarize (snd f) = TimedOut)"
      and ab: "list_all2 (\<lambda>g m. fst (rank_file (w_runtime w) (GEMINI_API_KEY w) g) = Inr m) pre a
             \<and> list_all2 (\<lambda>g m. fst (rank_file (w_runtime w) (GEMINI_API_KEY w) g) = Inr m) post b"
    let ?p = "placeholder_match (rf_filename (fst f)) ranking_timeout_text"
    from h t have "fst (rank_file (w_runtime w) (GEMINI_API_KEY w) f) = Inr ?p"
      by (simp add: rank_file_timeout)
    with ab have "list_all2 (\<lambda>g m. fst (rank_file (w_runtime w) (GEMINI_API_KEY w) g) = Inr m)
        (pre @ f # post) (a @ ?p # b)"
      by (simp add: list_all2_appendI)
    with assms(3) have "list_all2 (\<lambda>g m. fst (rank_file (w_runtime w) (GEMINI_API_KEY w) g) = Inr m)
        (eligible (w_runtime w) files) (a @ ?p # b)" by simp
    from analyze_accepted_ranking [OF assms(1,2) ne _ this, of query db rid uid] h
    show "\<exists>r. response (analyze_resumes w db files query rid uid) = Inr (Ranking r)
                     \<and> rr_ranking r = py_sort_reverse qm_score
                         (a @ \<lparr>qm_file_name = rf_filename (fst f), qm_score = Finite 0,
                               qm_justification = ranking_timeout_text,
                               qm_name = None, qm_title = None\<rparr> # b)"
      by (simp add: placeholder_match_def)
  }
qed

theorem timeout_yields_placeholder_witness:
  "(\<exists>s. response (analyze_resumes sample_world [] sample_request None None None)
            = Inr (Summaries s)
         \<and> map rs_file_name (sr_summaries s) = [''a.pdf'', ''b.pdf'', ''c.pdf'', ''e.pdf'']
         \<and> map rs_summary (sr_summaries s)
             = [''engineer'', ''engineer'', summary_timeout_text, ''engineer''])
   \<and> (\<exists>r. response (analyze_resumes sample_world [] sample_request (Some ''python'') None None)
            = Inr (Ranking r)
         \<and> map qm_file_name (rr_ranking r) = [''b.pdf'', ''a.pdf'', ''c.pdf'', ''e.pdf'']
         \<and> map qm_score (rr_ranking r) = [Finite 1, Finite (1 / 2), Finite 0, Finite 0]
         \<and> map qm_justification (rr_ranking r)
             = [''fits'', ''fits'', ranking_timeout_text, ranking_timeout_text])"
proof -
  let ?pre = "[sample_entry ''a.pdf'' ''resume a''
                 (Completed (sample_evaluation (JStr ''0.5''))) (Completed sample_summary),
               sample_entry ''b.pdf'' ''resume b''
                 (Completed (sample_evaluation (JFloat (Finite 2)))) (Completed sample_summary)]"
  let ?f = "sample_entry ''c.pdf'' ''resume c''
              (Completed (sample_evaluation (JFloat (Finite (1 / 2))))) TimedOut"
  let ?post = "[sample_entry ''e.pdf'' ''resume e'' TimedOut (Completed sample_summary)]"
  let ?a = "[\<lparr>qm_file_name = ''a.pdf'', qm_score = Finite (1 / 2), qm_justification = ''fits'',
              qm_name = Some ''Ana'', qm_title = None\<rparr>,
             \<lparr>qm_file_name = ''b.pdf'', qm_score = Finite 1, qm_justification = ''fits'',
              qm_name = Some ''Ana'', qm_title = None\<rparr>]"
  let ?b = "[\<lparr>qm_file_name = ''e.pdf'', qm_score = Finite 0,
              qm_justification = ranking_timeout_text, qm_name = None, qm_title = None\<rparr>]"
  let ?P = "\<lambda>g m. fst (rank_file (w_runtime sample_world) (GEMINI_API_KEY sample_world) g) = Inr m"
  have h1: "sample_request \<noteq> []" by (simp add: sample_request_def)
  have h2: "\<forall>u\<in>set sample_request. up_read u = ReadOk"
    by (simp add: sample_request_def sample_file_def)
  have h3: "eligible (w_runtime sample_world) sample_request = ?pre @ ?f # ?post"
    by (simp add: run_simps sample_request_def sample_entry_def)
  have s: "\<not> str_truthy None \<and> c_summarize (snd ?f) = TimedOut"
    by (simp add: str_truthy_def sample_entry_def)
  have q: "str_truthy (Some ''python'')
      \<and> (c_evaluate (snd ?f) = TimedOut \<or> c_summarize (snd ?f) = TimedOut)"
    by (simp add: str_truthy_def sample_entry_def)
  have ab: "list_all2 ?P ?pre ?a \<and> list_all2 ?P ?post ?b"
    by (simp add: run_simps sample_entry_def)
  note ts = timeout_yields_placeholder [OF h1 h2 h3, of None "[]" None None]
  note tr = timeout_yields_placeholder [OF h1 h2 h3, of "Some ''python''" "[]" None None]
  from conjunct1 [OF ts, THEN mp, OF s] obtain sm where
    r1: "response (analyze_resumes sample_world [] sample_request None None None)
           = Inr (Summaries sm)"
    and e1: "sr_summaries sm =
        map (\<lambda>g. fst (summarize_file (w_runtime sample_world) (GEMINI_API_KEY sample_world) g)) ?pre
        @ \<lparr>rs_file_name = rf_filename (fst ?f), rs_summary = summary_timeout_text,
            rs_name = None, rs_title = None, rs_technologies = None,
            rs_experiences = None, rs_education = None\<rparr>
        # map (\<lambda>g. fst (summarize_file (w_runtime sample_world) (GEMINI_API_KEY sample_world) g)) ?post"
    by (elim exE conjE)
  from e1 have m1: "map rs_file_name (sr_summaries sm) = [''a.pdf'', ''b.pdf'', ''c.pdf'', ''e.pdf'']
         \<and> map rs_summary (sr_summaries sm)
             = [''engineer'', ''engineer'', summary_timeout_text, ''engineer'']"
    by (simp add: sample_entry_def sample_world_def sample_summary_def summarize_file_def
        summarize_resume_def build_summary_def opt_field_def placeholder_summary_def Let_def ev_simps)
  from conjunct2 [OF tr, THEN mp, OF q, THEN spec, THEN spec, THEN mp, OF ab] obtain rk where
    r2: "response (analyze_resumes sample_world [] sample_request (Some ''python'') None None)
           = Inr (Ranking rk)"
    and e2: "rr_ranking rk = py_sort_reverse qm_score
             (?a @ \<lparr>qm_file_name = rf_filename (fst ?f), qm_score = Finite 0,
                     qm_justification = ranking_timeout_text,
                     qm_name = None, qm_title = None\<rparr> # ?b)"
    by (elim exE conjE)
  from e2 have m2: "map qm_file_name (rr_ranking rk) = [''b.pdf'', ''a.pdf'', ''c.pdf'', ''e.pdf'']
         \<and> map qm_score (rr_ranking rk) = [Finite 1, Finite (1 / 2), Finite 0, Finite 0]
         \<and> map qm_justification (rr_ranking rk)
             = [''fits'', ''fits'', ranking_timeout_text, ranking_timeout_text]"
    by (simp add: py_sort_reverse_def py_sort_def sample_entry_def)
  from r1 m1 r2 m2 show ?thesis by (intro conjI exI [of _ sm] exI [of _ rk]) simp_all
qed

section \<open>Extracted text that looks like a failure marker\<close>

text \<open>
  C4. The extractor returns the text \<open>No text extracted.\<close> for one file, and a text that
  begins with \<open>OCR Error:\<close> for another, in both cases without an error. The extraction
  loop records no error for them, yet the filter of line 232 removes them: alone, such a file
  makes the request end with the 400 error for unreadable files; beside a usable file it gets
  no completion call and no entry.
\<close>

theorem marker_like_text_is_excluded:
  "(\<exists>p. extract_file sample_runtime
            (sample_file ''cv.pdf'' (OcrReturned (Some ''No text extracted.'') None)
               (Completed JNull) (Completed sample_summary)) = Inr (p, None))
   \<and> eligible sample_runtime [sample_file ''cv.pdf'' (OcrReturned (Some ''No text extracted.'') None)
          (Completed JNull) (Completed sample_summary)] = []
   \<and> analyze_resumes sample_world []
        [sample_file ''cv.pdf'' (OcrReturned (Some ''No text extracted.'') None)
           (Completed JNull) (Completed sample_summary)] None None None
      = \<lparr>response = Inl (HTTPException 400 detail_no_text), llm_calls = [], submitted = [],
         logs = [], logged_duration = None\<rparr>
   \<and> (\<exists>p. extract_file sample_runtime
            (sample_file ''notes.pdf''
               (OcrReturned (Some ''OCR Error: rates of three engines compared'') None)
               (Completed JNull) (Completed sample_summary)) = Inr (p, None))
   \<and> llm_calls (analyze_resumes sample_world []
        [sample_file ''a.pdf'' (OcrReturned (Some ''resume a'') None)
           (Completed JNull) (Completed sample_summary),
         sample_file ''notes.pdf''
           (OcrReturned (Some ''OCR Error: rates of three engines compared'') None)
           (Completed JNull) (Completed sample_summary)] None None None)
      = [SummarizeCall ''a.pdf'']
   \<and> (\<exists>s. response (analyze_resumes sample_world []
        [sample_file ''a.pdf'' (OcrReturned (Some ''resume a'') None)
           (Completed JNull) (Completed sample_summary),
         sample_file ''notes.pdf''
           (OcrReturned (Some ''OCR Error: rates of three engines compared'') None)
           (Completed JNull) (Completed sample_summary)] None None None) = Inr (Summaries s)
        \<and> map rs_file_name (sr_summaries s) = [''a.pdf''])"
  by (simp add: run_simps)

end
